theory Spec2Isabelle
  imports Complex_Main "HOL-Library.AList" "HOL-Library.List_Lexorder"
    "HOL-Library.Char_ord" "HOL-Library.Product_Lexorder" "HOL-Library.Sublist"
begin

section \<open>Convex hull relaxation of disjunctive models (pyomo/gdp/plugins/chull.py)\<close>

text \<open>
  The transformation mutates a Pyomo model in place.  The model is embedded as an explicit
  store: every Python object the transformation reads or writes lives in a map from
  references to records, and every method of \<open>ConvexHull_Transformation\<close> is a function
  from stores to outcomes.  An exception is the outcome \<open>Fail\<close>, which carries the store as
  it was when the exception was raised.  Method names lose their leading underscore.
\<close>

subsection \<open>Expressions\<close>

type_synonym ref = nat

text \<open>
  Expression trees as the host library builds them from Python's arithmetic operators.
  Numeric constants are exact reals: \<open>EPS = 1e-2\<close> is read as the number one hundredth.
\<close>

datatype expr =
    Const real
  | Var ref
  | Add expr expr
  | Sub expr expr
  | Mul expr expr
  | Div expr expr
  | Power expr expr

text \<open>
  What is handed to \<open>Constraint.add\<close>: \<open>lhs <= rhs\<close>, \<open>lhs >= rhs\<close>, \<open>lhs == rhs\<close> (also
  written as the pair \<open>(lhs, rhs)\<close>), or the ranged form \<open>lo <= body <= hi\<close>.
\<close>

datatype relexpr =
    Le expr expr
  | Ge expr expr
  | Eq expr expr
  | Ranged expr expr expr

text \<open>The accessors \<open>c.body\<close>, \<open>c.lower\<close> and \<open>c.upper\<close> of a constraint.\<close>

fun body :: "relexpr \<Rightarrow> expr" where
  "body (Le a b) = a"
| "body (Ge a b) = a"
| "body (Eq a b) = a"
| "body (Ranged l a u) = a"

fun lower :: "relexpr \<Rightarrow> expr option" where
  "lower (Le a b) = None"
| "lower (Ge a b) = Some b"
| "lower (Eq a b) = Some b"
| "lower (Ranged l a u) = Some l"

fun upper :: "relexpr \<Rightarrow> expr option" where
  "upper (Le a b) = Some b"
| "upper (Ge a b) = None"
| "upper (Eq a b) = Some b"
| "upper (Ranged l a u) = Some u"

text \<open>
  \<open>clone_expression(e, substitute=m)\<close>: a structural copy of \<open>e\<close> in which every variable
  that is a key of the dictionary \<open>m\<close> is replaced by the expression stored for it.
  Modelled from the spec: the host's clone-with-substitution service ("producing a
  structurally cloned copy with a supplied variable-to-expression substitution map applied
  at the leaves").
\<close>

fun clone_expression :: "expr \<Rightarrow> (ref \<times> expr) list \<Rightarrow> expr" where
  "clone_expression (Const c) sub = Const c"
| "clone_expression (Var v) sub = (case map_of sub v of None \<Rightarrow> Var v | Some e \<Rightarrow> e)"
| "clone_expression (Add a b) sub = Add (clone_expression a sub) (clone_expression b sub)"
| "clone_expression (Sub a b) sub = Sub (clone_expression a sub) (clone_expression b sub)"
| "clone_expression (Mul a b) sub = Mul (clone_expression a sub) (clone_expression b sub)"
| "clone_expression (Div a b) sub = Div (clone_expression a sub) (clone_expression b sub)"
| "clone_expression (Power a b) sub = Power (clone_expression a sub) (clone_expression b sub)"

text \<open>
  Modelled from the spec: the host's polynomial-degree query ("0, 1, or
  nonlinear/indeterminate"); \<open>None\<close> is Python's \<open>None\<close>.  A fixed variable counts as a
  constant.
\<close>

definition is_nat_const :: "real \<Rightarrow> bool" where
  "is_nat_const c = (0 \<le> c \<and> c = of_int (floor c))"

fun polynomial_degree :: "(ref \<Rightarrow> bool) \<Rightarrow> expr \<Rightarrow> nat option" where
  "polynomial_degree fixed (Const c) = Some 0"
| "polynomial_degree fixed (Var v) = Some (if fixed v then 0 else 1)"
| "polynomial_degree fixed (Add a b) =
     (case (polynomial_degree fixed a, polynomial_degree fixed b) of
        (Some m, Some n) \<Rightarrow> Some (max m n) | _ \<Rightarrow> None)"
| "polynomial_degree fixed (Sub a b) =
     (case (polynomial_degree fixed a, polynomial_degree fixed b) of
        (Some m, Some n) \<Rightarrow> Some (max m n) | _ \<Rightarrow> None)"
| "polynomial_degree fixed (Mul a b) =
     (case (polynomial_degree fixed a, polynomial_degree fixed b) of
        (Some m, Some n) \<Rightarrow> Some (m + n) | _ \<Rightarrow> None)"
| "polynomial_degree fixed (Div a b) =
     (if polynomial_degree fixed b = Some 0 then polynomial_degree fixed a else None)"
| "polynomial_degree fixed (Power a b) =
     (case b of
        Const c \<Rightarrow>
          (if is_nat_const c
           then map_option (\<lambda>m. m * nat (floor c)) (polynomial_degree fixed a)
           else if polynomial_degree fixed a = Some 0 then Some 0 else None)
      | _ \<Rightarrow>
          (if polynomial_degree fixed a = Some 0 \<and> polynomial_degree fixed b = Some 0
           then Some 0 else None))"

text \<open>
  Modelled from the spec: the host's referenced-variables query.  The variables of an
  expression, left to right.
\<close>

fun variables :: "expr \<Rightarrow> ref list" where
  "variables (Const c) = []"
| "variables (Var v) = [v]"
| "variables (Add a b) = variables a @ variables b"
| "variables (Sub a b) = variables a @ variables b"
| "variables (Mul a b) = variables a @ variables b"
| "variables (Div a b) = variables a @ variables b"
| "variables (Power a b) = variables a @ variables b"






subsection \<open>The store\<close>

text \<open>
  An index of an indexed component is a Python scalar or tuple; it is kept as the list of
  its entries.  The key \<open>None\<close> of a scalar component is the empty list, so both
  \<open>(i, 'lb')\<close> for an index \<open>i\<close> and the bare \<open>'lb'\<close> are an index followed by the
  string.  \<open>sorted(iterkeys(obj))\<close> lists the entries of a component by ascending index,
  numbers before strings.
\<close>

datatype key = KInt int | KStr string

type_synonym index = "key list"

fun key_code :: "key \<Rightarrow> nat \<times> int \<times> string" where
  "key_code (KInt i) = (0, i, [])"
| "key_code (KStr s) = (1, 0, s)"

definition sorted_iterkeys :: "(index \<times> 'a) list \<Rightarrow> index list" where
  "sorted_iterkeys xs = sort_key (map key_code) (map fst xs)"

text \<open>The component types the handler table of \<open>__init__\<close> is keyed by, and any other.\<close>

datatype ctype =
    ConstraintT | VarT | ConnectorT | ParamT | SetT | SuffixT
  | DisjunctionT | DisjunctT | BlockT | OtherT string

text \<open>An entry of a block's \<open>component_map()\<close>: the component's type and its reference.\<close>

datatype comp = Comp ctype ref

record var_data =
  v_lb :: "real option"
  v_ub :: "real option"
  v_fixed :: bool
  v_value :: "real option"

record cons_data =
  c_expr :: relexpr
  c_active :: bool

text \<open>
  A \<open>Constraint\<close> component.  A scalar component is its own single data object, so its
  \<open>active\<close> flag is the component's; the data of an indexed component carry their own.
\<close>

record constraint =
  k_indexed :: bool
  k_active :: bool
  k_data :: "(index \<times> cons_data) list"

text \<open>
  The attribute \<open>_gdp_transformation_info\<close>: absent, something that is not a \<open>dict\<close>, or
  a reference to a dictionary.
\<close>

datatype info_attr = NoAttr | NotADict | IsDict ref

datatype container = DisjunctionContainer ref | BlockContainer ref

text \<open>
  The data object of a \<open>Block\<close> or \<open>Disjunct\<close>.  \<open>b_indicator_var\<close> is read on disjuncts
  only; \<open>b_relaxedDisjuncts\<close> and \<open>b_disjContainers\<close> are the attributes \<open>_apply_to\<close> gives
  the transformation block.
\<close>

record block_data =
  b_active :: bool
  b_components :: "comp list"
  b_info :: info_attr
  b_indicator_var :: ref
  b_parent_component :: ref
  b_relaxedDisjuncts :: ref
  b_disjContainers :: "container list"

text \<open>A \<open>Block\<close> or \<open>Disjunct\<close> component: its data objects by index.\<close>

record block =
  bk_indexed :: bool
  bk_active :: bool
  bk_data :: "(index \<times> ref) list"

record disjunction_data =
  dj_active :: bool
  dj_xor :: bool
  dj_disjuncts :: "ref list"

record disjunction =
  d_indexed :: bool
  d_active :: bool
  d_data :: "(index \<times> disjunction_data) list"
  d_parent_block :: ref

text \<open>
  A \<open>_gdp_transformation_info\<close> dictionary: one field per key the transformations use,
  \<open>None\<close> when the key is absent.  A \<open>ComponentMap\<close> is an association list keyed by
  reference.
\<close>

record infodict =
  i_relaxed :: "bool option"
  i_chull :: "ref option"
  i_bigm :: "ref option"
  i_disaggregatedVars :: "(ref \<times> ref) list option"
  i_bigmConstraints :: "(ref \<times> ref) list option"
  i_relaxedConstraints :: "(ref \<times> ref) list option"
  i_disjunction_or_constraint :: "(ref \<times> ref) list option"
  i_disjunction_disaggregation_constraints :: "(ref \<times> ref) list option"
  i_src :: "ref option"
  i_srcVars :: "(ref \<times> ref) list option"
  i_boundConstraintToSrcVar :: "(ref \<times> ref) list option"
  i_srcConstraints :: "(ref \<times> ref) list option"

definition empty_dict :: infodict where
  "empty_dict = \<lparr>i_relaxed = None, i_chull = None, i_bigm = None,
     i_disaggregatedVars = None,
     i_bigmConstraints = None, i_relaxedConstraints = None,
     i_disjunction_or_constraint = None, i_disjunction_disaggregation_constraints = None,
     i_src = None, i_srcVars = None, i_boundConstraintToSrcVar = None,
     i_srcConstraints = None\<rparr>"

text \<open>
  The store.  \<open>others\<close> holds the \<open>active\<close> attribute of a component of any other type
  (\<open>None\<close>: the component has no such attribute).  \<open>next_ref\<close> is the next unused
  reference.
\<close>

record model =
  vars :: "ref \<Rightarrow> var_data"
  constraints :: "ref \<Rightarrow> constraint"
  blocks :: "ref \<Rightarrow> block"
  block_datas :: "ref \<Rightarrow> block_data"
  disjunctions :: "ref \<Rightarrow> disjunction"
  others :: "ref \<Rightarrow> bool option"
  infodicts :: "ref \<Rightarrow> infodict"
  next_ref :: ref

datatype error =
    TargetNotFound
  | UnsupportedTargetKind
  | NonExclusiveDisjunctionUnsupported
  | UnboundedDisaggregationVariable ref
  | UnsupportedEntityKind ctype
  | ConflictingMetadataAttribute
  | OrderingViolation
  | UnknownFormulationMode
  | NameError
  | KeyError
  | AttributeError
  | TypeError
  | AssertionError
  | OutOfFuel

text \<open>
  The first eight are the error kinds of the specification; in the source the first seven
  are \<open>GDP_Error\<close>s told apart by their message and the eighth is the \<open>RuntimeError\<close>
  of \<open>_xform_constraint\<close>.  The next five are Python's own exceptions.  \<open>OutOfFuel\<close> is
  not an exception: it is the result of a traversal of the block hierarchy that was not
  given enough steps.
\<close>

datatype 'a outcome = Done 'a model | Fail error model

fun and_then :: "'a outcome \<Rightarrow> ('a \<Rightarrow> model \<Rightarrow> 'b outcome) \<Rightarrow> 'b outcome" where
  "and_then (Done a m) f = f a m"
| "and_then (Fail e m) f = Fail e m"

text \<open>A \<open>for\<close> loop whose body may raise: the first exception ends it.\<close>

fun for_each :: "('a \<Rightarrow> model \<Rightarrow> unit outcome) \<Rightarrow> 'a list \<Rightarrow> model \<Rightarrow> unit outcome" where
  "for_each f [] m = Done () m"
| "for_each f (x # xs) m =
     (case f x m of Done u m' \<Rightarrow> for_each f xs m' | Fail e m' \<Rightarrow> Fail e m')"

subsection \<open>Store operations of the host library\<close>

definition set_constraint :: "ref \<Rightarrow> constraint \<Rightarrow> model \<Rightarrow> model" where
  "set_constraint r k m = m\<lparr>constraints := (constraints m)(r := k)\<rparr>"

definition set_block_data :: "ref \<Rightarrow> block_data \<Rightarrow> model \<Rightarrow> model" where
  "set_block_data r b m = m\<lparr>block_datas := (block_datas m)(r := b)\<rparr>"

definition set_infodict :: "ref \<Rightarrow> infodict \<Rightarrow> model \<Rightarrow> model" where
  "set_infodict r d m = m\<lparr>infodicts := (infodicts m)(r := d)\<rparr>"

text \<open>
  Python creates an object and the store gives it the reference \<open>next_ref\<close>: each of the
  functions \<open>new_...\<close> returns the store with the new object in it, and its caller reads
  the reference from the store before the call.

  \<open>Constraint(...)\<close>: a new, empty, active constraint component.
\<close>

definition new_constraint :: "bool \<Rightarrow> model \<Rightarrow> model" where
  "new_constraint indexed m =
     m\<lparr>constraints := (constraints m)(next_ref m :=
          \<lparr>k_indexed = indexed, k_active = True, k_data = []\<rparr>),
       next_ref := Suc (next_ref m)\<rparr>"

text \<open>\<open>block.add_component(name, c)\<close>: the component is appended to the block's map.\<close>

definition add_component :: "ref \<Rightarrow> comp \<Rightarrow> model \<Rightarrow> model" where
  "add_component b c m =
     set_block_data b
       ((block_datas m b)\<lparr>b_components := b_components (block_datas m b) @ [c]\<rparr>) m"

text \<open>\<open>constraint.add(index, expr)\<close>: the entry at \<open>index\<close> becomes a new active constraint.\<close>

definition constraint_add :: "ref \<Rightarrow> index \<Rightarrow> relexpr \<Rightarrow> model \<Rightarrow> model" where
  "constraint_add r i e m =
     set_constraint r
       ((constraints m r)\<lparr>k_data :=
          AList.update i \<lparr>c_expr = e, c_active = True\<rparr> (k_data (constraints m r))\<rparr>) m"

text \<open>\<open>c.active\<close> and \<open>c.deactivate()\<close> for the data object at index \<open>i\<close> of a constraint.\<close>

definition cons_data_active :: "constraint \<Rightarrow> cons_data \<Rightarrow> bool" where
  "cons_data_active k c = (if k_indexed k then c_active c else k_active k)"

definition cons_data_deactivate :: "ref \<Rightarrow> index \<Rightarrow> model \<Rightarrow> model" where
  "cons_data_deactivate r i m =
     (let k = constraints m r in
      if k_indexed k
      then set_constraint r
             (k\<lparr>k_data := map (\<lambda>(j, c). if j = i then (j, c\<lparr>c_active := False\<rparr>) else (j, c))
                            (k_data k)\<rparr>) m
      else set_constraint r (k\<lparr>k_active := False\<rparr>) m)"

subsection \<open>The constraint rewriter (\<open>_xform_constraint\<close>)\<close>

definition NL_Mode_LeeGrossmann :: int where
  "NL_Mode_LeeGrossmann = 1"

definition NL_Mode_GrossmannLee :: int where
  "NL_Mode_GrossmannLee = 2"

definition NL_Mode_FurmanSawayaGrossmann :: int where
  "NL_Mode_FurmanSawayaGrossmann = 3"

definition EPS :: real where
  "EPS = 1 / 100"

text \<open>
  The rewritten body \<open>expr\<close> of one constraint (lines 576 to 604).  \<open>y\<close> is the indicator
  variable, \<open>h_0\<close> the body cloned under \<open>zero_substitute_map\<close>.
\<close>

definition rewritten_body ::
  "int \<Rightarrow> bool \<Rightarrow> expr \<Rightarrow> expr \<Rightarrow> expr \<Rightarrow> (ref \<times> expr) list \<Rightarrow> error + expr" where
  "rewritten_body mode NL c_body y h_0 var_substitute_map =
     (if NL then
        if mode = NL_Mode_LeeGrossmann then
          Inr (Mul (clone_expression c_body
                      (map (\<lambda>(var, subs). (var, Div subs y)) var_substitute_map)) y)
        else if mode = NL_Mode_GrossmannLee then
          Inr (Mul (Add y (Const EPS))
                 (clone_expression c_body
                    (map (\<lambda>(var, subs). (var, Div subs (Add y (Const EPS))))
                       var_substitute_map)))
        else if mode = NL_Mode_FurmanSawayaGrossmann then
          Inr (Sub
                 (Mul (Add (Mul (Const (1 - EPS)) y) (Const EPS))
                    (clone_expression c_body
                       (map (\<lambda>(var, subs).
                               (var, Div subs (Add (Mul (Const (1 - EPS)) y) (Const EPS))))
                          var_substitute_map)))
                 (Mul (Mul (Const EPS) h_0) (Sub (Const 1) y)))
        else Inl UnknownFormulationMode
      else Inr (clone_expression c_body var_substitute_map))"

text \<open>
  The constraints one data object \<open>c\<close> with index \<open>i\<close> gives rise to (lines 606 to 635), as
  the list of the calls \<open>newConstraint.add(index, expression)\<close> in the order made.
\<close>

definition new_constraints ::
  "bool \<Rightarrow> index \<Rightarrow> bool \<Rightarrow> relexpr \<Rightarrow> expr \<Rightarrow> expr \<Rightarrow> expr \<Rightarrow> (index \<times> relexpr) list" where
  "new_constraints obj_indexed i NL c expr y h_0 =
     (case lower c of
        None \<Rightarrow> []
      | Some L \<Rightarrow>
          [(if obj_indexed then i @ [KStr ''lb''] else [KStr ''lb''],
            if NL then Ge expr (Mul L y)
            else Ge (Sub expr (Mul (Sub (Const 1) y) h_0)) (Mul L y))]) @
     (case upper c of
        None \<Rightarrow> []
      | Some U \<Rightarrow>
          [(if obj_indexed then i @ [KStr ''ub''] else [KStr ''ub''],
            if NL then Le expr (Mul U y)
            else Le (Sub expr (Mul (Sub (Const 1) y) h_0)) (Mul U y))])"

text \<open>
  The body of the loop over \<open>sorted(iterkeys(obj))\<close>.  Python binds \<open>h_0\<close> only when the
  constraint is linear or the mode is the third one, and reads it only then; cloning has
  no effect on the store, so the model binds it always.
\<close>

definition xform_constraint_data ::
  "int \<Rightarrow> ref \<Rightarrow> ref \<Rightarrow> ref \<Rightarrow> (ref \<times> expr) list \<Rightarrow> (ref \<times> expr) list \<Rightarrow> index \<Rightarrow>
   model \<Rightarrow> unit outcome" where
  "xform_constraint_data mode obj disjunct newConstraint var_substitute_map
       zero_substitute_map i m =
     (case map_of (k_data (constraints m obj)) i of
        None \<Rightarrow> Fail KeyError m
      | Some c \<Rightarrow>
          if \<not> cons_data_active (constraints m obj) c then Done () m
          else
            let m1 = cons_data_deactivate obj i m;
                d = polynomial_degree (\<lambda>v. v_fixed (vars m1 v)) (body (c_expr c));
                NL = (d \<noteq> Some 0 \<and> d \<noteq> Some 1);
                h_0 = clone_expression (body (c_expr c)) zero_substitute_map;
                y = Var (b_indicator_var (block_datas m1 disjunct))
            in (case rewritten_body mode NL (body (c_expr c)) y h_0 var_substitute_map of
                  Inl e \<Rightarrow> Fail e m1
                | Inr expr \<Rightarrow>
                    Done ()
                      (fold (\<lambda>(idx, e). constraint_add newConstraint idx e)
                         (new_constraints (k_indexed (constraints m1 obj)) i NL (c_expr c)
                            expr y h_0)
                         m1)))"

text \<open>
  \<open>_xform_constraint\<close>.  Both \<open>Constraint(obj.index_set(), transBlock.lbub)\<close> and
  \<open>Constraint(transBlock.lbub)\<close> are indexed components; index sets are not part of the
  store, and names play no part in what is built.
\<close>

definition xform_constraint ::
  "int \<Rightarrow> ref \<Rightarrow> ref \<Rightarrow> ref \<Rightarrow> ref \<Rightarrow> (ref \<times> expr) list \<Rightarrow> (ref \<times> expr) list \<Rightarrow>
   model \<Rightarrow> unit outcome" where
  "xform_constraint mode obj disjunct relaxationBlock infodict var_substitute_map
       zero_substitute_map m =
     (case i_disaggregatedVars (infodicts m infodict) of
        None \<Rightarrow> Fail KeyError m
      | Some varMap \<Rightarrow>
          let newConstraint = next_ref m;
              m1 = new_constraint True m;
              m2 = add_component relaxationBlock (Comp ConstraintT newConstraint) m1;
              d = infodicts m2 infodict;
              m3 = set_infodict infodict
                     (d\<lparr>i_relaxedConstraints :=
                          Some (AList.update obj newConstraint
                                  (case i_relaxedConstraints d of None \<Rightarrow> [] | Some al \<Rightarrow> al))\<rparr>)
                     m2
          in (case b_info (block_datas m3 relaxationBlock) of
                IsDict r \<Rightarrow>
                  let rd = infodicts m3 r;
                      m4 = set_infodict r
                             (rd\<lparr>i_srcConstraints :=
                                   Some (AList.update newConstraint obj
                                           (case i_srcConstraints rd of
                                              None \<Rightarrow> [] | Some al \<Rightarrow> al))\<rparr>)
                             m3
                  in for_each
                       (xform_constraint_data mode obj disjunct newConstraint
                          var_substitute_map zero_substitute_map)
                       (sorted_iterkeys (k_data (constraints m4 obj))) m4
              | _ \<Rightarrow> Fail AttributeError m3))"


subsection \<open>Activity flags\<close>

text \<open>
  A scalar \<open>Block\<close> or \<open>Disjunct\<close> is its own data object, so the component's \<open>active\<close> is
  the data object's.  A scalar \<open>Disjunction\<close> keeps the flag in the component.
  \<open>deactivate()\<close> only clears flags here: what the host does to an indicator variable when
  a disjunct is deactivated is not in the source.
\<close>

definition block_active :: "model \<Rightarrow> ref \<Rightarrow> bool" where
  "block_active m r =
     (let k = blocks m r in
      if bk_indexed k then bk_active k
      else (case bk_data k of [(i, d)] \<Rightarrow> b_active (block_datas m d) | _ \<Rightarrow> bk_active k))"

definition block_data_deactivate :: "ref \<Rightarrow> model \<Rightarrow> model" where
  "block_data_deactivate d m = set_block_data d ((block_datas m d)\<lparr>b_active := False\<rparr>) m"

definition block_deactivate :: "ref \<Rightarrow> model \<Rightarrow> model" where
  "block_deactivate r m =
     fold (\<lambda>(i, d). block_data_deactivate d) (bk_data (blocks m r))
       (m\<lparr>blocks := (blocks m)(r := (blocks m r)\<lparr>bk_active := False\<rparr>)\<rparr>)"

definition disjunction_data_active :: "disjunction \<Rightarrow> disjunction_data \<Rightarrow> bool" where
  "disjunction_data_active d dd = (if d_indexed d then dj_active dd else d_active d)"

definition disjunction_deactivate :: "ref \<Rightarrow> model \<Rightarrow> model" where
  "disjunction_deactivate r m =
     m\<lparr>disjunctions := (disjunctions m)(r :=
         (disjunctions m r)\<lparr>d_active := False,
            d_data := map (\<lambda>(i, dd). (i, dd\<lparr>dj_active := False\<rparr>)) (d_data (disjunctions m r))\<rparr>)\<rparr>"

text \<open>\<open>ActiveComponent.deactivate(obj)\<close>: the container's own flag only.\<close>

definition ActiveComponent_deactivate :: "container \<Rightarrow> model \<Rightarrow> model" where
  "ActiveComponent_deactivate obj m =
     (case obj of
        DisjunctionContainer r \<Rightarrow>
          m\<lparr>disjunctions := (disjunctions m)(r := (disjunctions m r)\<lparr>d_active := False\<rparr>)\<rparr>
      | BlockContainer r \<Rightarrow>
          m\<lparr>blocks := (blocks m)(r := (blocks m r)\<lparr>bk_active := False\<rparr>)\<rparr>)"

text \<open>
  \<open>hasattr(obj, 'active')\<close> and \<open>obj.active\<close> for an entry of a component map: \<open>None\<close>
  when the component has no such attribute.
\<close>

fun comp_active :: "model \<Rightarrow> comp \<Rightarrow> bool option" where
  "comp_active m (Comp t r) =
     (case t of
        ConstraintT \<Rightarrow> Some (k_active (constraints m r))
      | DisjunctionT \<Rightarrow> Some (d_active (disjunctions m r))
      | DisjunctT \<Rightarrow> Some (block_active m r)
      | BlockT \<Rightarrow> Some (block_active m r)
      | _ \<Rightarrow> others m r)"

subsection \<open>The handler table and the traversal of a disjunct\<close>

text \<open>
  The values of \<open>self.handlers\<close>: \<open>False\<close> or one of the four bound methods.  A type that
  is not a key of the dictionary has no entry.
\<close>

datatype handler =
    HFalse
  | H_xform_constraint
  | H_warn_for_active_disjunction
  | H_warn_for_active_disjunct
  | H_transform_block_on_disjunct

fun handlers :: "ctype \<Rightarrow> handler option" where
  "handlers ConstraintT = Some H_xform_constraint"
| "handlers VarT = Some HFalse"
| "handlers ConnectorT = Some HFalse"
| "handlers ParamT = Some HFalse"
| "handlers SetT = Some HFalse"
| "handlers SuffixT = Some HFalse"
| "handlers DisjunctionT = Some H_warn_for_active_disjunction"
| "handlers DisjunctT = Some H_warn_for_active_disjunct"
| "handlers BlockT = Some H_transform_block_on_disjunct"
| "handlers (OtherT s) = None"

text \<open>
  \<open>_warn_for_active_disjunction\<close>.  The second assertion compares the disjunction's name
  with the keys of the parent block's dictionary; names are not part of the store and the
  assertion is left out (an exception follows it either way).
\<close>

definition warn_for_active_disjunction :: "ref \<Rightarrow> ref \<Rightarrow> model \<Rightarrow> unit outcome" where
  "warn_for_active_disjunction disjunction disjunct m =
     (let d = disjunctions m disjunction in
      if \<not> d_active d then Fail AssertionError m
      else if d_indexed d \<and> \<not> list_ex (\<lambda>(i, dd). dj_active dd) (d_data d)
      then Done () (disjunction_deactivate disjunction m)
      else Fail OrderingViolation m)"

definition warn_for_active_disjunct :: "ref \<Rightarrow> ref \<Rightarrow> model \<Rightarrow> unit outcome" where
  "warn_for_active_disjunct innerdisjunct outerdisjunct m =
     (let k = blocks m innerdisjunct in
      if \<not> block_active m innerdisjunct then Fail AssertionError m
      else if bk_indexed k \<and> \<not> list_ex (\<lambda>(i, d). b_active (block_datas m d)) (bk_data k)
      then Done () (block_deactivate innerdisjunct m)
      else Fail OrderingViolation m)"

text \<open>
  \<open>_transform_block_on_disjunct\<close>.  Its one statement is the call
  \<open>self._transform_block_components(block, disjunct, relaxationBlock, varSet, infodict)\<close>.
  \<open>varSet\<close> is neither a parameter nor a local of the method nor a name of the module, so
  evaluating the arguments raises \<open>NameError\<close> before anything is called.
\<close>

definition transform_block_on_disjunct :: "ref \<Rightarrow> ref \<Rightarrow> ref \<Rightarrow> ref \<Rightarrow> model \<Rightarrow> unit outcome" where
  "transform_block_on_disjunct block disjunct relaxationBlock infodict m = Fail NameError m"

fun type :: "comp \<Rightarrow> ctype" where
  "type (Comp t r) = t"

fun comp_ref :: "comp \<Rightarrow> ref" where
  "comp_ref (Comp t r) = r"

text \<open>The body of the loop of \<open>_transform_block_components\<close>, for one entry of the map.\<close>

definition transform_component ::
  "int \<Rightarrow> ref \<Rightarrow> ref \<Rightarrow> ref \<Rightarrow> (ref \<times> expr) list \<Rightarrow> (ref \<times> expr) list \<Rightarrow> comp \<Rightarrow>
   model \<Rightarrow> unit outcome" where
  "transform_component mode disjunct relaxedBlock infodict var_substitute_map
       zero_substitute_map obj m =
     (if comp_active m obj = Some False then Done () m
      else
        (case handlers (type obj) of
           None \<Rightarrow> Fail (UnsupportedEntityKind (type obj)) m
         | Some HFalse \<Rightarrow> Done () m
         | Some H_xform_constraint \<Rightarrow>
             xform_constraint mode (comp_ref obj) disjunct relaxedBlock infodict
               var_substitute_map zero_substitute_map m
         | Some H_warn_for_active_disjunction \<Rightarrow>
             warn_for_active_disjunction (comp_ref obj) disjunct m
         | Some H_warn_for_active_disjunct \<Rightarrow>
             warn_for_active_disjunct (comp_ref obj) disjunct m
         | Some H_transform_block_on_disjunct \<Rightarrow>
             transform_block_on_disjunct (comp_ref obj) disjunct relaxedBlock infodict m))"

text \<open>
  \<open>_transform_block_components\<close>: the loop runs over a copy of the component map taken
  before the first iteration.
\<close>

definition transform_block_components ::
  "int \<Rightarrow> ref \<Rightarrow> ref \<Rightarrow> ref \<Rightarrow> ref \<Rightarrow> (ref \<times> expr) list \<Rightarrow> (ref \<times> expr) list \<Rightarrow>
   model \<Rightarrow> unit outcome" where
  "transform_block_components mode block disjunct relaxedBlock infodict var_substitute_map
       zero_substitute_map m =
     for_each
       (transform_component mode disjunct relaxedBlock infodict var_substitute_map
          zero_substitute_map)
       (b_components (block_datas m block)) m"


subsection \<open>The disjunct transformer (\<open>_transform_disjunct\<close>)\<close>

text \<open>\<open>Var(within=Reals)\<close>: a new variable without bounds, not fixed.\<close>

definition new_var :: "model \<Rightarrow> model" where
  "new_var m =
     m\<lparr>vars := (vars m)(next_ref m :=
          \<lparr>v_lb = None, v_ub = None, v_fixed = False, v_value = None\<rparr>),
       next_ref := Suc (next_ref m)\<rparr>"

text \<open>A new dictionary object with the given content.\<close>

definition new_dict :: "infodict \<Rightarrow> model \<Rightarrow> model" where
  "new_dict d m =
     m\<lparr>infodicts := (infodicts m)(next_ref m := d), next_ref := Suc (next_ref m)\<rparr>"

text \<open>
  \<open>relaxedDisjuncts[len(relaxedDisjuncts)]\<close> on the \<open>Block(Any)\<close>: a new, empty block data
  object under the key \<open>len(relaxedDisjuncts)\<close>.
\<close>

definition new_relaxation_block :: "ref \<Rightarrow> model \<Rightarrow> model" where
  "new_relaxation_block relaxedDisjuncts m =
     (let k = blocks m relaxedDisjuncts in
      m\<lparr>block_datas := (block_datas m)(next_ref m :=
           \<lparr>b_active = True, b_components = [], b_info = NoAttr, b_indicator_var = 0,
            b_parent_component = relaxedDisjuncts, b_relaxedDisjuncts = 0,
            b_disjContainers = []\<rparr>),
        blocks := (blocks m)(relaxedDisjuncts :=
           k\<lparr>bk_data := bk_data k @ [([KInt (int (length (bk_data k)))], next_ref m)]\<rparr>),
        next_ref := Suc (next_ref m)\<rparr>)"

text \<open>\<open>transBlock.disjContainers.add(c)\<close> on the \<open>ComponentSet\<close>.\<close>

definition disjContainers_add :: "ref \<Rightarrow> container \<Rightarrow> model \<Rightarrow> model" where
  "disjContainers_add transBlock c m =
     (let tb = block_datas m transBlock in
      if c \<in> set (b_disjContainers tb) then m
      else set_block_data transBlock (tb\<lparr>b_disjContainers := b_disjContainers tb @ [c]\<rparr>) m)"

text \<open>\<open>var.fix(value)\<close>.\<close>

definition var_fix :: "ref \<Rightarrow> real \<Rightarrow> model \<Rightarrow> model" where
  "var_fix v x m = m\<lparr>vars := (vars m)(v := (vars m v)\<lparr>v_fixed := True, v_value := Some x\<rparr>)\<rparr>"

text \<open>
  The body of the loop over \<open>varSet\<close> (lines 403 to 425): the disaggregated copy of one
  variable and its two bound constraints.
\<close>

definition disaggregate_var :: "ref \<Rightarrow> ref \<Rightarrow> ref \<Rightarrow> ref \<Rightarrow> ref \<Rightarrow> model \<Rightarrow> unit outcome" where
  "disaggregate_var obj relaxationBlock relaxationBlockInfo infodict var m =
     (let disaggregatedVar = next_ref m;
          m1 = new_var m;
          m2 = add_component relaxationBlock (Comp VarT disaggregatedVar) m1
      in (case i_disaggregatedVars (infodicts m2 infodict) of
            None \<Rightarrow> Fail KeyError m2
          | Some dvs \<Rightarrow>
              let m3 = set_infodict infodict
                         ((infodicts m2 infodict)\<lparr>i_disaggregatedVars :=
                            Some (AList.update var disaggregatedVar dvs)\<rparr>) m2
              in (case i_srcVars (infodicts m3 relaxationBlockInfo) of
                    None \<Rightarrow> Fail KeyError m3
                  | Some svs \<Rightarrow>
                      let m4 = set_infodict relaxationBlockInfo
                                 ((infodicts m3 relaxationBlockInfo)\<lparr>i_srcVars :=
                                    Some (AList.update disaggregatedVar var svs)\<rparr>) m3
                      in (case (v_lb (vars m4 var), v_ub (vars m4 var)) of
                            (Some lb, Some ub) \<Rightarrow>
                              let bigmConstraint = next_ref m4;
                                  m5 = new_constraint True m4;
                                  m6 = add_component relaxationBlock
                                         (Comp ConstraintT bigmConstraint) m5;
                                  indicator_var = b_indicator_var (block_datas m6 obj);
                                  m7 = constraint_add bigmConstraint [KStr ''lb'']
                                         (Le (Mul (Var indicator_var) (Const lb))
                                            (Var disaggregatedVar)) m6;
                                  m8 = constraint_add bigmConstraint [KStr ''ub'']
                                         (Le (Var disaggregatedVar)
                                            (Mul (Var indicator_var) (Const ub))) m7
                              in (case i_bigmConstraints (infodicts m8 infodict) of
                                    None \<Rightarrow> Fail KeyError m8
                                  | Some bcs \<Rightarrow>
                                      let m9 = set_infodict infodict
                                                 ((infodicts m8 infodict)\<lparr>i_bigmConstraints :=
                                                    Some (AList.update var bigmConstraint bcs)\<rparr>)
                                                 m8
                                      in (case i_boundConstraintToSrcVar
                                                 (infodicts m9 relaxationBlockInfo) of
                                            None \<Rightarrow> Fail KeyError m9
                                          | Some bvs \<Rightarrow>
                                              Done ()
                                                (set_infodict relaxationBlockInfo
                                                   ((infodicts m9 relaxationBlockInfo)
                                                      \<lparr>i_boundConstraintToSrcVar :=
                                                         Some (AList.update bigmConstraint var
                                                                 bvs)\<rparr>)
                                                   m9)))
                          | _ \<Rightarrow> Fail (UnboundedDisaggregationVariable var) m4))))"

text \<open>
  Lines 380 to 440 of \<open>_transform_disjunct\<close>: what is done to a disjunct that is not
  skipped.  Python's local \<open>infodict\<close> is the disjunct's dictionary when it has one, and a
  new dictionary otherwise, which becomes the disjunct's attribute in the last line only.
\<close>

definition relax_disjunct :: "int \<Rightarrow> ref \<Rightarrow> ref \<Rightarrow> ref list \<Rightarrow> model \<Rightarrow> unit outcome" where
  "relax_disjunct mode obj transBlock varSet m =
     (let infodict = (case b_info (block_datas m obj) of IsDict r \<Rightarrow> r | _ \<Rightarrow> next_ref m);
          m1 = (case b_info (block_datas m obj) of IsDict r \<Rightarrow> m | _ \<Rightarrow> new_dict empty_dict m);
          relaxedDisjuncts = b_relaxedDisjuncts (block_datas m1 transBlock);
          relaxationBlock = next_ref m1;
          m2 = new_relaxation_block relaxedDisjuncts m1;
          relaxationBlockInfo = next_ref m2;
          m3 = new_dict (empty_dict\<lparr>i_src := Some obj, i_srcVars := Some [],
                           i_boundConstraintToSrcVar := Some []\<rparr>) m2;
          m4 = set_block_data relaxationBlock
                 ((block_datas m3 relaxationBlock)\<lparr>b_info := IsDict relaxationBlockInfo\<rparr>) m3;
          m5 = set_infodict infodict
                 ((infodicts m4 infodict)\<lparr>i_chull := Some relaxationBlock\<rparr>) m4;
          disjParent = b_parent_component (block_datas m5 obj);
          m6 = (if bk_indexed (blocks m5 disjParent) \<and>
                   BlockContainer disjParent \<notin> set (b_disjContainers (block_datas m5 transBlock))
                then disjContainers_add transBlock (BlockContainer disjParent) m5
                else m5);
          m7 = set_infodict infodict
                 ((infodicts m6 infodict)\<lparr>i_disaggregatedVars := Some [],
                    i_bigmConstraints := Some []\<rparr>) m6
      in and_then
           (for_each (disaggregate_var obj relaxationBlock relaxationBlockInfo infodict)
              varSet m7)
           (\<lambda>u m8.
              (case i_disaggregatedVars (infodicts m8 infodict) of
                 None \<Rightarrow> Fail KeyError m8
               | Some dvs \<Rightarrow>
                   and_then
                     (transform_block_components mode obj obj relaxationBlock infodict
                        (map (\<lambda>(v, newV). (v, Var newV)) dvs)
                        (map (\<lambda>(v, newV). (v, Const 0)) dvs) m8)
                     (\<lambda>u m9.
                        let m10 = block_data_deactivate obj m9;
                            m11 = set_infodict infodict
                                    ((infodicts m10 infodict)\<lparr>i_relaxed := Some True\<rparr>) m10
                        in Done ()
                             (set_block_data obj
                                ((block_datas m11 obj)\<lparr>b_info := IsDict infodict\<rparr>) m11)))))"

text \<open>\<open>_transform_disjunct\<close>: lines 355 to 378 decide whether the disjunct is skipped.\<close>

definition transform_disjunct :: "int \<Rightarrow> ref \<Rightarrow> ref \<Rightarrow> ref list \<Rightarrow> model \<Rightarrow> unit outcome" where
  "transform_disjunct mode obj transBlock varSet m =
     (case b_info (block_datas m obj) of
        NotADict \<Rightarrow> Fail ConflictingMetadataAttribute m
      | attr \<Rightarrow>
          let infodict = (case attr of IsDict r \<Rightarrow> infodicts m r | _ \<Rightarrow> empty_dict) in
          if \<not> b_active (block_datas m obj) \<and> i_relaxed infodict \<noteq> Some True
          then Done () (var_fix (b_indicator_var (block_datas m obj)) 0 m)
          else if i_chull infodict \<noteq> None then Done () m
          else relax_disjunct mode obj transBlock varSet m)"


subsection \<open>The disjunction transformer\<close>

text \<open>
  \<open>_getDisjunctionConstraints\<close>: the exclusivity constraint and the disaggregation
  constraint of a disjunction, found in the dictionary of the disjunction's parent block or
  created on that block.
\<close>

definition getDisjunctionConstraints :: "ref \<Rightarrow> model \<Rightarrow> (ref \<times> ref) outcome" where
  "getDisjunctionConstraints disjunction m =
     (let parent = d_parent_block (disjunctions m disjunction) in
      case b_info (block_datas m parent) of
        NotADict \<Rightarrow> Fail ConflictingMetadataAttribute m
      | attr \<Rightarrow>
          let infodict = (case attr of IsDict r \<Rightarrow> r | _ \<Rightarrow> next_ref m);
              m1 = (case attr of
                      IsDict r \<Rightarrow> m
                    | _ \<Rightarrow>
                        set_block_data parent
                          ((block_datas (new_dict empty_dict m) parent)
                             \<lparr>b_info := IsDict (next_ref m)\<rparr>)
                          (new_dict empty_dict m));
              d = infodicts m1 infodict;
              orConstraintMap =
                (case i_disjunction_or_constraint d of None \<Rightarrow> [] | Some al \<Rightarrow> al);
              disaggregationConstraintMap =
                (case i_disjunction_disaggregation_constraints d of
                   None \<Rightarrow> [] | Some al \<Rightarrow> al);
              m2 = set_infodict infodict
                     (d\<lparr>i_disjunction_or_constraint := Some orConstraintMap,
                        i_disjunction_disaggregation_constraints :=
                          Some disaggregationConstraintMap\<rparr>) m1;
              disaggregationConstraint =
                (case map_of disaggregationConstraintMap disjunction of
                   Some c \<Rightarrow> c
                 | None \<Rightarrow> next_ref m2);
              m3 =
                (case map_of disaggregationConstraintMap disjunction of
                   Some c \<Rightarrow> m2
                 | None \<Rightarrow>
                     (let m' = new_constraint True m2;
                          m'' = set_infodict infodict
                                  ((infodicts m' infodict)
                                     \<lparr>i_disjunction_disaggregation_constraints :=
                                        Some (AList.update disjunction (next_ref m2)
                                                disaggregationConstraintMap)\<rparr>) m'
                      in add_component parent (Comp ConstraintT (next_ref m2)) m''));
              orC =
                (case map_of orConstraintMap disjunction of
                   Some c \<Rightarrow> c
                 | None \<Rightarrow> next_ref m3);
              m4 =
                (case map_of orConstraintMap disjunction of
                   Some c \<Rightarrow> m3
                 | None \<Rightarrow>
                     (let m' = new_constraint (d_indexed (disjunctions m3 disjunction)) m3;
                          m'' = add_component parent (Comp ConstraintT (next_ref m3)) m'
                      in set_infodict infodict
                           ((infodicts m'' infodict)\<lparr>i_disjunction_or_constraint :=
                              Some (AList.update disjunction (next_ref m3) orConstraintMap)\<rparr>)
                           m''))
          in Done (orC, disaggregationConstraint) m4)"

text \<open>
  Modelled from the spec: the host's iteration \<open>component_objects(Constraint, active=True,
  descend_into=Block)\<close> over a disjunct ("ordered iteration over an entity's children with
  a kind filter and recursion control", "entities already inactive are skipped"): the
  active \<open>Constraint\<close> components of the block, then those of its active sub-blocks.
  The first argument bounds the depth of the descent; \<open>None\<close> says it was too small.
\<close>

definition sorted_values :: "(index \<times> 'a) list \<Rightarrow> 'a list" where
  "sorted_values xs = map snd (sort_key (\<lambda>p. map key_code (fst p)) xs)"

fun component_objects_Constraint :: "nat \<Rightarrow> model \<Rightarrow> ref \<Rightarrow> ref list option" where
  "component_objects_Constraint 0 m b = None"
| "component_objects_Constraint (Suc n) m b =
     (if \<not> b_active (block_datas m b) then Some []
      else
        map_option
          (\<lambda>below.
             concat (map (\<lambda>c. if type c = ConstraintT \<and> k_active (constraints m (comp_ref c))
                               then [comp_ref c] else [])
                       (b_components (block_datas m b))) @
             concat below)
          (those
             (map (component_objects_Constraint n m)
                (concat (map (\<lambda>c. if type c = BlockT \<and> block_active m (comp_ref c)
                                   then sorted_values (bk_data (blocks m (comp_ref c)))
                                   else [])
                           (b_components (block_datas m b)))))))"

text \<open>
  \<open>identify_variables(cons.body, include_fixed=False)\<close> for the active data objects of a
  constraint component.
\<close>

definition identify_variables :: "model \<Rightarrow> ref \<Rightarrow> ref list" where
  "identify_variables m cons =
     concat (map (\<lambda>c. if cons_data_active (constraints m cons) c
                       then filter (\<lambda>v. \<not> v_fixed (vars m v)) (variables (body (c_expr c)))
                       else [])
               (sorted_values (k_data (constraints m cons))))"

text \<open>
  Lines 309 to 326: the variables to disaggregate, each once, in the order found.
\<close>

definition collect_varSet :: "model \<Rightarrow> ref list \<Rightarrow> ref list option" where
  "collect_varSet m disjuncts =
     map_option
       (\<lambda>conss.
          foldl (\<lambda>varSet var. if var \<in> set varSet then varSet else varSet @ [var]) []
            (concat (map (identify_variables m) (concat conss))))
       (those (map (component_objects_Constraint (Suc (next_ref m)) m) disjuncts))"

text \<open>Lines 337 to 341: the sum of the disaggregated copies of \<open>var\<close>, starting from 0.\<close>

fun disaggregatedExpr :: "model \<Rightarrow> ref \<Rightarrow> ref list \<Rightarrow> expr \<Rightarrow> error + expr" where
  "disaggregatedExpr m var [] acc = Inr acc"
| "disaggregatedExpr m var (disjunct # ds) acc =
     (case b_info (block_datas m disjunct) of
        NoAttr \<Rightarrow> Inl AttributeError
      | NotADict \<Rightarrow> Inl TypeError
      | IsDict r \<Rightarrow>
          (case i_disaggregatedVars (infodicts m r) of
             None \<Rightarrow> Inl KeyError
           | Some dvs \<Rightarrow>
               (case map_of dvs var of
                  None \<Rightarrow> Inl KeyError
                | Some disaggregatedVar \<Rightarrow>
                    disaggregatedExpr m var ds (Add acc (Var disaggregatedVar)))))"

text \<open>Lines 336 to 351, for one entry \<open>(i, var)\<close> of \<open>enumerate(varSet)\<close>.\<close>

definition add_disaggregation_constraint ::
  "ref \<Rightarrow> ref list \<Rightarrow> index \<Rightarrow> ref \<Rightarrow> nat \<times> ref \<Rightarrow> model \<Rightarrow> unit outcome" where
  "add_disaggregation_constraint parent_component disjuncts index disaggregationConstraint
       iv m =
     (case disaggregatedExpr m (snd iv) disjuncts (Const 0) of
        Inl e \<Rightarrow> Fail e m
      | Inr e \<Rightarrow>
          let consIdx =
                (if length index > 1 then index @ [KInt (int (fst iv))]
                 else if d_indexed (disjunctions m parent_component)
                 then index @ [KInt (int (fst iv))]
                 else [KInt (int (fst iv))])
          in Done () (constraint_add disaggregationConstraint consIdx (Eq (Var (snd iv)) e) m))"

text \<open>
  Lines 331 to 333: the loop over \<open>obj.disjuncts\<close> that adds each indicator variable to
  \<open>or_expr\<close> and transforms the disjunct.  It returns the final \<open>or_expr\<close>.
\<close>

fun transform_disjuncts ::
  "int \<Rightarrow> ref \<Rightarrow> ref list \<Rightarrow> ref list \<Rightarrow> expr \<Rightarrow> model \<Rightarrow> expr outcome" where
  "transform_disjuncts mode transBlock varSet [] or_expr m = Done or_expr m"
| "transform_disjuncts mode transBlock varSet (disjunct # ds) or_expr m =
     (case transform_disjunct mode disjunct transBlock varSet m of
        Done u m' \<Rightarrow>
          transform_disjuncts mode transBlock varSet ds
            (Add or_expr (Var (b_indicator_var (block_datas m disjunct)))) m'
      | Fail e m' \<Rightarrow> Fail e m')"

text \<open>
  \<open>_transformDisjunctionData\<close>.  The data object \<open>obj\<close> is the entry \<open>index\<close> of its
  component \<open>parent_component\<close>; \<open>cs\<close> is the pair \<open>(orConstraint,
  disaggregationConstraint)\<close>.
\<close>

definition transformDisjunctionData ::
  "int \<Rightarrow> ref \<Rightarrow> index \<Rightarrow> ref \<Rightarrow> model \<Rightarrow> unit outcome" where
  "transformDisjunctionData mode parent_component index transBlock m =
     (case map_of (d_data (disjunctions m parent_component)) index of
        None \<Rightarrow> Fail KeyError m
      | Some obj \<Rightarrow>
          if \<not> dj_xor obj then Fail NonExclusiveDisjunctionUnsupported m
          else
            let m1 = disjContainers_add transBlock (DisjunctionContainer parent_component) m
            in and_then (getDisjunctionConstraints parent_component m1)
                 (\<lambda>cs m2.
                    (case collect_varSet m2 (dj_disjuncts obj) of
                       None \<Rightarrow> Fail OutOfFuel m2
                     | Some varSet \<Rightarrow>
                         and_then
                           (transform_disjuncts mode transBlock varSet (dj_disjuncts obj)
                              (Const 0) m2)
                           (\<lambda>or_expr m3.
                              for_each
                                (add_disaggregation_constraint parent_component
                                   (dj_disjuncts obj) index (snd cs))
                                (enumerate 0 varSet)
                                (constraint_add (fst cs) index (Eq or_expr (Const 1)) m3)))))"

text \<open>\<open>_transformDisjunction\<close>.\<close>

definition transformDisjunction :: "int \<Rightarrow> ref \<Rightarrow> ref \<Rightarrow> model \<Rightarrow> unit outcome" where
  "transformDisjunction mode obj transBlock m =
     and_then
       (for_each (\<lambda>i. transformDisjunctionData mode obj i transBlock)
          (sorted_iterkeys (d_data (disjunctions m obj))) m)
       (\<lambda>u m'. Done () (disjunction_deactivate obj m'))"


subsection \<open>The traversal of blocks and \<open>_apply_to\<close>\<close>

text \<open>
  \<open>_transformBlockData\<close>.  Modelled from the spec: the host's iteration
  \<open>component_objects(Disjunction, active=True, descend_into=(Block, Disjunct),
  descent_order=PostfixDFS)\<close> ("for Blocks/Disjuncts it recurses (post-order: deepest
  first) looking for Disjunctions; dispatch order across sibling disjunctions follows
  declaration order", "entities already inactive are skipped, not visited").  The iteration
  is a generator, so a block or disjunction is tested for being active when it is reached.
  The first argument bounds the depth of the descent.
\<close>

fun transformBlockData_upto :: "nat \<Rightarrow> int \<Rightarrow> ref \<Rightarrow> ref \<Rightarrow> model \<Rightarrow> unit outcome" where
  "transformBlockData_upto 0 mode obj transBlock m = Fail OutOfFuel m"
| "transformBlockData_upto (Suc n) mode obj transBlock m =
     (if \<not> b_active (block_datas m obj) then Done () m
      else
        and_then
          (for_each
             (\<lambda>c m1.
                if type c = BlockT \<or> type c = DisjunctT
                then for_each
                       (\<lambda>sub m2.
                          if b_active (block_datas m2 sub)
                          then transformBlockData_upto n mode sub transBlock m2
                          else Done () m2)
                       (sorted_values (bk_data (blocks m1 (comp_ref c)))) m1
                else Done () m1)
             (b_components (block_datas m obj)) m)
          (\<lambda>u m3.
             for_each
               (\<lambda>c m4.
                  if type c = DisjunctionT \<and> d_active (disjunctions m4 (comp_ref c))
                  then transformDisjunction mode (comp_ref c) transBlock m4
                  else Done () m4)
               (b_components (block_datas m3 obj)) m3))"

definition transformBlockData :: "int \<Rightarrow> ref \<Rightarrow> ref \<Rightarrow> model \<Rightarrow> unit outcome" where
  "transformBlockData mode obj transBlock m =
     transformBlockData_upto (Suc (next_ref m)) mode obj transBlock m"

text \<open>\<open>_transformBlock\<close>.\<close>

definition transformBlock :: "int \<Rightarrow> ref \<Rightarrow> ref \<Rightarrow> model \<Rightarrow> unit outcome" where
  "transformBlock mode obj transBlock m =
     for_each
       (\<lambda>i m'. case map_of (bk_data (blocks m' obj)) i of
                  None \<Rightarrow> Fail KeyError m'
                | Some d \<Rightarrow> transformBlockData mode d transBlock m')
       (sorted_iterkeys (bk_data (blocks m obj))) m"

text \<open>
  What an entry \<open>_t\<close> of \<open>targets\<close> resolves to under \<open>_t.find_component(instance)\<close>: a
  \<open>Disjunction\<close> component, one data object of an indexed \<open>Disjunction\<close>, a \<open>Block\<close> or
  \<open>Disjunct\<close> component, one data object of an indexed one, or a component of another type
  with its \<open>active\<close> flag.  An entry that does not resolve is \<open>None\<close>.
\<close>

datatype target =
    DisjunctionTarget ref
  | DisjunctionDataTarget ref index
  | BlockTarget ref
  | BlockDataTarget ref
  | OtherTarget ctype bool

fun target_active :: "model \<Rightarrow> target \<Rightarrow> bool" where
  "target_active m (DisjunctionTarget r) = d_active (disjunctions m r)"
| "target_active m (DisjunctionDataTarget r i) =
     (case map_of (d_data (disjunctions m r)) i of
        None \<Rightarrow> False
      | Some dd \<Rightarrow> disjunction_data_active (disjunctions m r) dd)"
| "target_active m (BlockTarget r) = block_active m r"
| "target_active m (BlockDataTarget d) = b_active (block_datas m d)"
| "target_active m (OtherTarget t a) = a"

text \<open>The body of the loop over \<open>targets\<close> (lines 138 to 160).\<close>

definition transform_target :: "int \<Rightarrow> ref \<Rightarrow> target option \<Rightarrow> model \<Rightarrow> unit outcome" where
  "transform_target mode transBlock t' m =
     (case t' of
        None \<Rightarrow> Fail TargetNotFound m
      | Some t \<Rightarrow>
          if \<not> target_active m t then Done () m
          else
            (case t of
               DisjunctionTarget r \<Rightarrow> transformDisjunction mode r transBlock m
             | DisjunctionDataTarget r i \<Rightarrow> transformDisjunctionData mode r i transBlock m
             | BlockTarget r \<Rightarrow> transformBlock mode r transBlock m
             | BlockDataTarget d \<Rightarrow> transformBlockData mode d transBlock m
             | OtherTarget ty a \<Rightarrow> Fail UnsupportedTargetKind m))"

text \<open>
  Lines 123 to 131: the transformation block, added to the instance, with its
  \<open>relaxedDisjuncts\<close>, its set \<open>lbub\<close> and its empty \<open>disjContainers\<close>.  The data object
  of the new block gets the reference \<open>transBlock_ref\<close>.
\<close>

definition transBlock_ref :: "model \<Rightarrow> ref" where
  "transBlock_ref m = Suc (next_ref m)"

definition make_transBlock :: "ref \<Rightarrow> model \<Rightarrow> model" where
  "make_transBlock instance m =
     (let transBlock = next_ref m;
          transBlockData = transBlock_ref m;
          relaxedDisjuncts = Suc (Suc (next_ref m));
          lbub = Suc (Suc (Suc (next_ref m)));
          m1 = m\<lparr>blocks := (blocks m)
                   (transBlock :=
                      \<lparr>bk_indexed = False, bk_active = True, bk_data = [([], transBlockData)]\<rparr>,
                    relaxedDisjuncts :=
                      \<lparr>bk_indexed = True, bk_active = True, bk_data = []\<rparr>),
                 block_datas := (block_datas m)
                   (transBlockData :=
                      \<lparr>b_active = True,
                       b_components = [Comp BlockT relaxedDisjuncts, Comp SetT lbub],
                       b_info = NoAttr, b_indicator_var = 0,
                       b_parent_component = transBlock,
                       b_relaxedDisjuncts = relaxedDisjuncts, b_disjContainers = []\<rparr>),
                 next_ref := Suc (Suc (Suc (Suc (next_ref m))))\<rparr>
      in add_component instance (Comp BlockT transBlock) m1)"

text \<open>Lines 166 to 189, for one entry of \<open>transBlock.disjContainers\<close>.\<close>

definition check_container :: "container \<Rightarrow> model \<Rightarrow> unit outcome" where
  "check_container obj m =
     (case obj of
        DisjunctionContainer r \<Rightarrow>
          if \<not> d_active (disjunctions m r) then Done () m
          else if list_ex (\<lambda>(i, dd). disjunction_data_active (disjunctions m r) dd)
                    (d_data (disjunctions m r))
          then Done () m
          else Done () (ActiveComponent_deactivate obj m)
      | BlockContainer r \<Rightarrow>
          if \<not> block_active m r then Done () m
          else if list_ex (\<lambda>(i, d). b_active (block_datas m d)) (bk_data (blocks m r))
          then Done () m
          else Done () (ActiveComponent_deactivate obj m))"

text \<open>
  \<open>_apply_to\<close>.  \<open>instance\<close> is the data object of the model, a scalar block.  \<open>nl_mode\<close>
  and \<open>targets\<close> are the keyword arguments of these names, \<open>None\<close> when not given; the
  warnings about other keywords change nothing.  \<open>HACK_GDP_Disjunct_Reclassifier\<close> is
  another transformation, of the module \<open>gdp_var_mover\<close>: it is a parameter here.
\<close>

definition apply_to ::
  "(ref \<Rightarrow> model \<Rightarrow> unit outcome) \<Rightarrow> ref \<Rightarrow> int option \<Rightarrow> target option list option \<Rightarrow>
   model \<Rightarrow> unit outcome" where
  "apply_to HACK_GDP_Disjunct_Reclassifier instance nl_mode targets m =
     (let mode = (case nl_mode of None \<Rightarrow> NL_Mode_FurmanSawayaGrossmann | Some k \<Rightarrow> k);
          transBlock = transBlock_ref m;
          m1 = make_transBlock instance m;
          targets' = (case targets of
                        None \<Rightarrow> [Some (BlockTarget (b_parent_component (block_datas m1 instance)))]
                      | Some ts \<Rightarrow> ts)
      in and_then (for_each (transform_target mode transBlock) targets' m1)
           (\<lambda>u m2.
              and_then
                (for_each check_container (b_disjContainers (block_datas m2 transBlock)) m2)
                (\<lambda>u m3.
                   if targets = None then HACK_GDP_Disjunct_Reclassifier instance m3
                   else Done () m3)))"


subsection \<open>Auxiliary notions for the statements\<close>

text \<open>The store an outcome carries, whether the call returned or raised.\<close>

fun outcome_model :: "'a outcome \<Rightarrow> model" where
  "outcome_model (Done a m) = m"
| "outcome_model (Fail e m) = m"


text \<open>The sum of variables as the loops build it: \<open>0 + y1 + y2 + ...\<close>.\<close>

definition sum_expr :: "ref list \<Rightarrow> expr" where
  "sum_expr ys = foldl (\<lambda>e y. Add e (Var y)) (Const 0) ys"



subsection \<open>Example stores\<close>

definition var0 :: var_data where
  "var0 = \<lparr>v_lb = None, v_ub = None, v_fixed = False, v_value = None\<rparr>"

definition cons0 :: constraint where
  "cons0 = \<lparr>k_indexed = False, k_active = True, k_data = []\<rparr>"

definition block0 :: block where
  "block0 = \<lparr>bk_indexed = False, bk_active = True, bk_data = []\<rparr>"

definition bdata0 :: block_data where
  "bdata0 = \<lparr>b_active = True, b_components = [], b_info = NoAttr, b_indicator_var = 0,
     b_parent_component = 0, b_relaxedDisjuncts = 0, b_disjContainers = []\<rparr>"

definition disj0 :: disjunction where
  "disj0 = \<lparr>d_indexed = False, d_active = True, d_data = [], d_parent_block = 0\<rparr>"

definition store0 :: model where
  "store0 = \<lparr>vars = (\<lambda>r. var0), constraints = (\<lambda>r. cons0), blocks = (\<lambda>r. block0),
     block_datas = (\<lambda>r. bdata0), disjunctions = (\<lambda>r. disj0), others = (\<lambda>r. None),
     infodicts = (\<lambda>r. empty_dict), next_ref = 0\<rparr>"


text \<open>
  A model with one disjunction.  The instance is the block data object 11 (component 10);
  it holds the variable \<open>x\<close> (1, bounds 0 and 10), the scalar disjuncts 20 (data object 21,
  indicator variable 2) and 22 (data object 23, indicator variable 3), and the scalar
  disjunction 40 over them.  Disjunct 21 holds the constraint 30, \<open>2*x + 3 >= 5\<close>;
  disjunct 23 holds the constraint 31, \<open>x <= 4\<close>.
\<close>

definition M0 :: model where
  "M0 = store0\<lparr>
     vars := (vars store0)
       (1 := var0\<lparr>v_lb := Some 0, v_ub := Some 10\<rparr>,
        2 := var0\<lparr>v_lb := Some 0, v_ub := Some 1\<rparr>,
        3 := var0\<lparr>v_lb := Some 0, v_ub := Some 1\<rparr>),
     constraints := (constraints store0)
       (30 := cons0\<lparr>k_data :=
                 [([], \<lparr>c_expr = Ge (Add (Mul (Const 2) (Var 1)) (Const 3)) (Const 5),
                        c_active = True\<rparr>)]\<rparr>,
        31 := cons0\<lparr>k_data := [([], \<lparr>c_expr = Le (Var 1) (Const 4), c_active = True\<rparr>)]\<rparr>),
     blocks := (blocks store0)
       (10 := block0\<lparr>bk_data := [([], 11)]\<rparr>,
        20 := block0\<lparr>bk_data := [([], 21)]\<rparr>,
        22 := block0\<lparr>bk_data := [([], 23)]\<rparr>),
     block_datas := (block_datas store0)
       (11 := bdata0\<lparr>b_components :=
                   [Comp VarT 1, Comp DisjunctT 20, Comp DisjunctT 22, Comp DisjunctionT 40],
                 b_parent_component := 10\<rparr>,
        21 := bdata0\<lparr>b_components := [Comp VarT 2, Comp ConstraintT 30],
                 b_indicator_var := 2, b_parent_component := 20\<rparr>,
        23 := bdata0\<lparr>b_components := [Comp VarT 3, Comp ConstraintT 31],
                 b_indicator_var := 3, b_parent_component := 22\<rparr>),
     disjunctions := (disjunctions store0)
       (40 := disj0\<lparr>d_data := [([], \<lparr>dj_active = True, dj_xor = True, dj_disjuncts = [21, 23]\<rparr>)],
                 d_parent_block := 11\<rparr>),
     next_ref := 100\<rparr>"

text \<open>
  The same model with an active block (component 24, data object 25) inside disjunct 21;
  the block holds the constraint 32, \<open>x >= 1\<close>.
\<close>

definition M3 :: model where
  "M3 = M0\<lparr>
     constraints := (constraints M0)
       (32 := cons0\<lparr>k_data := [([], \<lparr>c_expr = Ge (Var 1) (Const 1), c_active = True\<rparr>)]\<rparr>),
     blocks := (blocks M0)(24 := block0\<lparr>bk_data := [([], 25)]\<rparr>),
     block_datas := (block_datas M0)
       (21 := (block_datas M0 21)\<lparr>b_components :=
                 [Comp VarT 2, Comp ConstraintT 30, Comp BlockT 24]\<rparr>,
        25 := bdata0\<lparr>b_components := [Comp ConstraintT 32], b_parent_component := 24\<rparr>)\<rparr>"

text \<open>
  The same model with an active component of a type without handler, an \<open>Objective\<close> (26),
  inside disjunct 21.
\<close>

definition M6 :: model where
  "M6 = M0\<lparr>
     block_datas := (block_datas M0)
       (21 := (block_datas M0 21)\<lparr>b_components :=
                 [Comp VarT 2, Comp (OtherT ''Objective'') 26, Comp ConstraintT 30]\<rparr>),
     others := (others M0)(26 := Some True)\<rparr>"

text \<open>The same model with a second disjunction, 41, which is not active.\<close>

definition M10 :: model where
  "M10 = M0\<lparr>
     disjunctions := (disjunctions M0)
       (41 := disj0\<lparr>d_active := False,
                 d_data := [([], \<lparr>dj_active = False, dj_xor = True, dj_disjuncts = [21, 23]\<rparr>)],
                 d_parent_block := 11\<rparr>),
     block_datas := (block_datas M0)
       (11 := (block_datas M0 11)\<lparr>b_components :=
                 [Comp VarT 1, Comp DisjunctT 20, Comp DisjunctT 22, Comp DisjunctionT 40,
                  Comp DisjunctionT 41]\<rparr>)\<rparr>"

text \<open>
  What the transformation may do to a \<open>Disjunction\<close> component and to a \<open>Block\<close> or
  \<open>Disjunct\<close> component that exists already: clear activity flags.
\<close>

definition disjunction_le :: "disjunction \<Rightarrow> disjunction \<Rightarrow> bool" where
  "disjunction_le d' d =
     (d_indexed d' = d_indexed d \<and> d_parent_block d' = d_parent_block d \<and>
      (d_active d' \<longrightarrow> d_active d) \<and>
      map (\<lambda>(i, dd). (i, dj_xor dd, dj_disjuncts dd)) (d_data d') =
      map (\<lambda>(i, dd). (i, dj_xor dd, dj_disjuncts dd)) (d_data d) \<and>
      list_all2 (\<lambda>(i', dd') (i, dd). dj_active dd' \<longrightarrow> dj_active dd) (d_data d') (d_data d))"

definition disjunctions_le :: "model \<Rightarrow> model \<Rightarrow> bool" where
  "disjunctions_le m m' = (\<forall>r. disjunction_le (disjunctions m' r) (disjunctions m r))"

definition blocks_le :: "model \<Rightarrow> model \<Rightarrow> bool" where
  "blocks_le m m' =
     (\<forall>r. bk_indexed (blocks m' r) = bk_indexed (blocks m r) \<and>
          bk_data (blocks m' r) = bk_data (blocks m r) \<and>
          (bk_active (blocks m' r) \<longrightarrow> bk_active (blocks m r)))"

section \<open>Properties\<close>

subsection \<open>Store operations\<close>


lemma constraint_add_frame:
  "vars (constraint_add r i e m) = vars m"
  "block_datas (constraint_add r i e m) = block_datas m"
  "r' \<noteq> r \<Longrightarrow> constraints (constraint_add r i e m) r' = constraints m r'"
  by (simp_all add: constraint_add_def set_constraint_def)

lemma fold_constraint_add_frame:
  "vars (fold (\<lambda>(idx, e). constraint_add r idx e) xs m) = vars m"
  "block_datas (fold (\<lambda>(idx, e). constraint_add r idx e) xs m) = block_datas m"
  "r' \<noteq> r \<Longrightarrow> constraints (fold (\<lambda>(idx, e). constraint_add r idx e) xs m) r' = constraints m r'"
  by (induction xs arbitrary: m) (auto simp: constraint_add_frame)









subsection \<open>The constraint rewriter\<close>












subsection \<open>Claims about the constraint rewriter\<close>






subsection \<open>Evaluation on example stores\<close>

lemma component_objects_Constraint_numeral:
  "component_objects_Constraint (numeral k) m b =
     (if \<not> b_active (block_datas m b) then Some []
      else
        map_option
          (\<lambda>below.
             concat (map (\<lambda>c. if type c = ConstraintT \<and> k_active (constraints m (comp_ref c))
                               then [comp_ref c] else [])
                       (b_components (block_datas m b))) @
             concat below)
          (those
             (map (component_objects_Constraint (pred_numeral k) m)
                (concat (map (\<lambda>c. if type c = BlockT \<and> block_active m (comp_ref c)
                                   then sorted_values (bk_data (blocks m (comp_ref c)))
                                   else [])
                           (b_components (block_datas m b)))))))"
  using component_objects_Constraint.simps(2) [of "pred_numeral k" m b]
  by (simp only: numeral_eq_Suc)

lemma and_then_weak_cong: "r = r' \<Longrightarrow> and_then r f = and_then r' f"
  by simp

lemma for_each_weak_cong: "xs = xs' \<Longrightarrow> m = m' \<Longrightarrow> for_each f xs m = for_each f xs' m'"
  by simp

lemmas eval_cong = let_weak_cong prod.case_cong_weak and_then_weak_cong for_each_weak_cong

lemmas store_eval = store0_def cons0_def bdata0_def var0_def block0_def disj0_def empty_dict_def

lemmas chull_eval =
  xform_constraint_def xform_constraint_data_def new_constraint_def add_component_def
  set_block_data_def set_infodict_def sorted_iterkeys_def sorted_values_def cons_data_active_def
  cons_data_deactivate_def set_constraint_def rewritten_body_def new_constraints_def
  constraint_add_def Let_def
  block_active_def block_data_deactivate_def block_deactivate_def disjunction_data_active_def
  disjunction_deactivate_def ActiveComponent_deactivate_def
  warn_for_active_disjunction_def warn_for_active_disjunct_def transform_block_on_disjunct_def
  transform_component_def transform_block_components_def
  new_var_def new_dict_def new_relaxation_block_def var_fix_def disaggregate_var_def
  disjContainers_add_def
  relax_disjunct_def transform_disjunct_def getDisjunctionConstraints_def
  identify_variables_def collect_varSet_def add_disaggregation_constraint_def
  transformDisjunctionData_def transformDisjunction_def transformBlockData_def
  transformBlock_def transform_target_def make_transBlock_def transBlock_ref_def
  check_container_def apply_to_def
  NL_Mode_FurmanSawayaGrossmann_def NL_Mode_LeeGrossmann_def NL_Mode_GrossmannLee_def
  component_objects_Constraint_numeral

subsection \<open>Claims about the formulation mode\<close>




lemma for_each_append:
  "for_each f (xs @ ys) m = and_then (for_each f xs m) (\<lambda>u. for_each f ys)"
  by (induction xs arbitrary: m) (auto split: outcome.splits)

subsection \<open>Claims about the traversal of a disjunct\<close>

lemma transform_component_Block:
  "comp_active m (Comp BlockT r) \<noteq> Some False \<Longrightarrow>
   transform_component mode disjunct relaxedBlock infodict var_substitute_map
     zero_substitute_map (Comp BlockT r) m = Fail NameError m"
  by (simp add: transform_component_def transform_block_on_disjunct_def)

text \<open>
  C3 fails on the code: the handler of a \<open>Block\<close> inside a disjunct evaluates the undefined
  name \<open>varSet\<close>.  The run on the example with the active block 24 inside disjunct 21 raises
  \<open>NameError\<close>; the constraint 32 on that block is still active and no constraint of the
  store carries its rewritten form.
\<close>

theorem C3_nested_block_raises_NameError:
  "\<exists>m'. apply_to (\<lambda>instance m. Done () m) 11 None (Some [Some (DisjunctionTarget 40)]) M3
          = Fail NameError m' \<and>
        k_active (constraints m' 32) \<and>
        b_active (block_datas m' 21)"
  by (simp add: M3_def M0_def store_eval chull_eval cong: eval_cong)

text \<open>
  C6.  In the traversal of a block inside a disjunct, when the components before \<open>c\<close> have
  been handled without error: if the type of \<open>c\<close> is not a key of the handler table and \<open>c\<close>
  is not inactive, the traversal raises \<open>UnsupportedEntityKind\<close> for that type, in the store
  reached so far; if the type of \<open>c\<close> is \<open>Var\<close>, \<open>Connector\<close>, \<open>Param\<close>, \<open>Set\<close> or
  \<open>Suffix\<close>, the traversal goes on with the components after \<open>c\<close> from the same store.
  The types without handler are those other than the nine keys of the table.
\<close>

theorem C6_unregistered_kind_raises:
  assumes comps: "b_components (block_datas m block) = pre @ c # post"
    and pre: "for_each (transform_component mode disjunct relaxedBlock infodict
                 var_substitute_map zero_substitute_map) pre m = Done () m1"
  shows "(handlers (type c) = None \<and> comp_active m1 c \<noteq> Some False \<longrightarrow>
            transform_block_components mode block disjunct relaxedBlock infodict
              var_substitute_map zero_substitute_map m =
            Fail (UnsupportedEntityKind (type c)) m1) \<and>
         (type c \<in> {VarT, ConnectorT, ParamT, SetT, SuffixT} \<longrightarrow>
            transform_block_components mode block disjunct relaxedBlock infodict
              var_substitute_map zero_substitute_map m =
            for_each (transform_component mode disjunct relaxedBlock infodict
                        var_substitute_map zero_substitute_map) post m1) \<and>
         (handlers (type c) = None) = (\<exists>s. type c = OtherT s)"
proof -
  let ?f = "transform_component mode disjunct relaxedBlock infodict var_substitute_map
              zero_substitute_map"
  have run: "transform_block_components mode block disjunct relaxedBlock infodict
               var_substitute_map zero_substitute_map m =
             (case ?f c m1 of Done u m2 \<Rightarrow> for_each ?f post m2 | Fail e m2 \<Rightarrow> Fail e m2)"
    by (simp add: transform_block_components_def comps for_each_append pre)
  have a: "handlers (type c) = None \<and> comp_active m1 c \<noteq> Some False \<longrightarrow>
             ?f c m1 = Fail (UnsupportedEntityKind (type c)) m1"
    by (simp add: transform_component_def)
  have b: "type c \<in> {VarT, ConnectorT, ParamT, SetT, SuffixT} \<longrightarrow> ?f c m1 = Done () m1"
    by (auto simp: transform_component_def)
  have c: "(handlers (type c) = None) = (\<exists>s. type c = OtherT s)"
    by (cases "type c") simp_all
  from a b c show ?thesis by (auto simp: run)
qed

text \<open>
  Disjunct 21 of the example with the objective holds a variable, the objective and a
  constraint: the variable is passed over, the objective stops the traversal.
\<close>

theorem C6_unregistered_kind_raises_witness:
  "transform_block_components 3 21 21 50 61 [] [] M6 =
     Fail (UnsupportedEntityKind (OtherT ''Objective'')) M6 \<and>
   transform_block_components 3 21 21 50 61 [] [] M6 =
     for_each (transform_component 3 21 50 61 [] [])
       [Comp (OtherT ''Objective'') 26, Comp ConstraintT 30] M6"
proof -
  have comps: "b_components (block_datas M6 21) =
                 [Comp VarT 2] @ Comp (OtherT ''Objective'') 26 # [Comp ConstraintT 30]"
    and comps': "b_components (block_datas M6 21) =
                 [] @ Comp VarT 2 # [Comp (OtherT ''Objective'') 26, Comp ConstraintT 30]"
    by (simp_all add: M6_def M0_def store_eval)
  have pre: "for_each (transform_component 3 21 50 61 [] []) [Comp VarT 2] M6 = Done () M6"
    by (simp add: transform_component_def)
  have act: "comp_active M6 (Comp (OtherT ''Objective'') 26) \<noteq> Some False"
    by (simp add: M6_def M0_def store_eval)
  have pre': "for_each (transform_component 3 21 50 61 [] []) [] M6 = Done () M6"
    by simp
  from C6_unregistered_kind_raises [OF comps pre] act
  have "transform_block_components 3 21 21 50 61 [] [] M6 =
          Fail (UnsupportedEntityKind (OtherT ''Objective'')) M6"
    by simp
  moreover from C6_unregistered_kind_raises [OF comps' pre']
  have "transform_block_components 3 21 21 50 61 [] [] M6 =
          for_each (transform_component 3 21 50 61 [] [])
            [Comp (OtherT ''Objective'') 26, Comp ConstraintT 30] M6"
    by simp
  ultimately show ?thesis by blast
qed

subsection \<open>Claims about the targets\<close>

text \<open>
  C10.  A target that resolves and is inactive when the loop reaches it is passed over:
  the run is the run without it.  The loop body returns for it, with the store unchanged;
  a target that does not resolve raises \<open>TargetNotFound\<close> at the same place.
\<close>

theorem C10_inactive_target_skipped:
  assumes pre: "for_each
                  (transform_target
                     (case nl_mode of None \<Rightarrow> NL_Mode_FurmanSawayaGrossmann | Some k \<Rightarrow> k)
                     (transBlock_ref m))
                  pre (make_transBlock instance m) = Done () m1"
    and inactive: "\<not> target_active m1 t"
  shows "apply_to HACK_GDP_Disjunct_Reclassifier instance nl_mode (Some (pre @ Some t # post)) m =
         apply_to HACK_GDP_Disjunct_Reclassifier instance nl_mode (Some (pre @ post)) m \<and>
         transform_target
           (case nl_mode of None \<Rightarrow> NL_Mode_FurmanSawayaGrossmann | Some k \<Rightarrow> k)
           (transBlock_ref m) (Some t) m1 = Done () m1 \<and>
         apply_to HACK_GDP_Disjunct_Reclassifier instance nl_mode (Some (pre @ None # post)) m =
         Fail TargetNotFound m1"
  using pre inactive
  by (simp add: apply_to_def Let_def for_each_append transform_target_def)

text \<open>
  On the example with the inactive disjunction 41: the run on the targets 41 and 40 is the
  run on the target 40.
\<close>

theorem C10_inactive_target_skipped_witness:
  "apply_to (\<lambda>instance m. Done () m) 11 None
     (Some [Some (DisjunctionTarget 41), Some (DisjunctionTarget 40)]) M10 =
   apply_to (\<lambda>instance m. Done () m) 11 None (Some [Some (DisjunctionTarget 40)]) M10 \<and>
   \<not> target_active (make_transBlock 11 M10) (DisjunctionTarget 41) \<and>
   transform_target NL_Mode_FurmanSawayaGrossmann (transBlock_ref M10)
     (Some (DisjunctionTarget 41)) (make_transBlock 11 M10) = Done () (make_transBlock 11 M10)"
proof -
  have inactive: "\<not> target_active (make_transBlock 11 M10) (DisjunctionTarget 41)"
    by (simp add: M10_def M0_def store_eval make_transBlock_def add_component_def
          set_block_data_def Let_def)
  have pre: "for_each
               (transform_target
                  (case None of None \<Rightarrow> NL_Mode_FurmanSawayaGrossmann | Some k \<Rightarrow> k)
                  (transBlock_ref M10))
               [] (make_transBlock 11 M10) = Done () (make_transBlock 11 M10)"
    by simp
  from C10_inactive_target_skipped [OF pre inactive, of "\<lambda>instance m. Done () m"
      "[Some (DisjunctionTarget 40)]"] inactive
  show ?thesis by simp
qed

subsection \<open>What the transformation leaves alone\<close>

lemma for_each_rel:
  assumes refl: "\<And>m. R m m" and trans: "\<And>a b c. R a b \<Longrightarrow> R b c \<Longrightarrow> R a c"
    and step: "\<And>x m. R m (outcome_model (f x m))"
  shows "R m (outcome_model (for_each f xs m))"
proof (induction xs arbitrary: m)
  case Nil
  show ?case by (simp add: refl)
next
  case (Cons x xs)
  show ?case
  proof (cases "f x m")
    case (Done u m1)
    have "R m m1" using step [of m x] by (simp add: Done)
    moreover have "R m1 (outcome_model (for_each f xs m1))" by (rule Cons.IH)
    ultimately show ?thesis by (simp add: Done) (rule trans)
  next
    case (Fail e m1)
    then show ?thesis using step [of m x] by simp
  qed
qed

lemma and_then_rel:
  assumes trans: "\<And>a b c. R a b \<Longrightarrow> R b c \<Longrightarrow> R a c"
    and first: "R m (outcome_model r)"
    and cont: "\<And>a m1. r = Done a m1 \<Longrightarrow> R m1 (outcome_model (f a m1))"
  shows "R m (outcome_model (and_then r f))"
proof (cases r)
  case (Done a m1)
  from first have "R m m1" by (simp add: Done)
  with cont [OF Done] show ?thesis by (simp add: Done) (rule trans)
next
  case (Fail e m1)
  with first show ?thesis by simp
qed

lemma disjunction_le_refl: "disjunction_le d d"
  by (simp add: disjunction_le_def list_all2_same case_prod_unfold)

lemma disjunction_le_trans:
  assumes "disjunction_le b a" and "disjunction_le c b"
  shows "disjunction_le c a"
proof -
  have "list_all2 (\<lambda>(i', dd') (i, dd). dj_active dd' \<longrightarrow> dj_active dd) (d_data c) (d_data a)"
    using list_all2_trans [of "\<lambda>(i', dd') (i, dd). dj_active dd' \<longrightarrow> dj_active dd"
        "\<lambda>(i', dd') (i, dd). dj_active dd' \<longrightarrow> dj_active dd"
        "\<lambda>(i', dd') (i, dd). dj_active dd' \<longrightarrow> dj_active dd" "d_data c" "d_data b" "d_data a"]
      assms
    by (auto simp: disjunction_le_def)
  with assms show ?thesis by (auto simp: disjunction_le_def)
qed

lemma disjunctions_le_refl: "disjunctions_le m m"
  by (simp add: disjunctions_le_def disjunction_le_refl)

lemma disjunctions_le_trans:
  "disjunctions_le a b \<Longrightarrow> disjunctions_le b c \<Longrightarrow> disjunctions_le a c"
  unfolding disjunctions_le_def by (blast intro: disjunction_le_trans)

lemma disjunctions_le_eq: "disjunctions m' = disjunctions m \<Longrightarrow> disjunctions_le m m'"
  by (simp add: disjunctions_le_def disjunction_le_refl)

lemma disjunctions_le_deactivate: "disjunctions_le m (disjunction_deactivate r m)"
  by (auto simp: disjunctions_le_def disjunction_le_def disjunction_deactivate_def
        list_all2_map1 list_all2_same case_prod_unfold comp_def)

lemma disjunctions_le_ActiveComponent_deactivate:
  "disjunctions_le m (ActiveComponent_deactivate c m)"
  by (cases c)
     (auto simp: disjunctions_le_def disjunction_le_def ActiveComponent_deactivate_def
        list_all2_same case_prod_unfold)

lemma blocks_le_refl: "blocks_le m m"
  by (simp add: blocks_le_def)

lemma blocks_le_trans: "blocks_le a b \<Longrightarrow> blocks_le b c \<Longrightarrow> blocks_le a c"
  by (simp add: blocks_le_def)

lemma blocks_le_eq: "blocks m' = blocks m \<Longrightarrow> blocks_le m m'"
  by (simp add: blocks_le_def)

lemmas prim_defs =
  set_constraint_def set_block_data_def set_infodict_def new_constraint_def add_component_def
  constraint_add_def cons_data_deactivate_def new_var_def new_dict_def var_fix_def
  block_data_deactivate_def

lemma fold_constraint_add_stores:
  "disjunctions (fold (\<lambda>(idx, e). constraint_add r idx e) xs m) = disjunctions m"
  "blocks (fold (\<lambda>(idx, e). constraint_add r idx e) xs m) = blocks m"
  "infodicts (fold (\<lambda>(idx, e). constraint_add r idx e) xs m) = infodicts m"
  "next_ref (fold (\<lambda>(idx, e). constraint_add r idx e) xs m) = next_ref m"
  by (induction xs arbitrary: m) (auto simp: prim_defs)

lemma xform_constraint_data_stores:
  "disjunctions (outcome_model (xform_constraint_data mode obj disjunct nc vsm zsm i m)) =
     disjunctions m"
  "blocks (outcome_model (xform_constraint_data mode obj disjunct nc vsm zsm i m)) = blocks m"
  "block_datas (outcome_model (xform_constraint_data mode obj disjunct nc vsm zsm i m)) =
     block_datas m"
  "infodicts (outcome_model (xform_constraint_data mode obj disjunct nc vsm zsm i m)) =
     infodicts m"
  "next_ref (outcome_model (xform_constraint_data mode obj disjunct nc vsm zsm i m)) =
     next_ref m"
  by (auto simp: xform_constraint_data_def Let_def fold_constraint_add_stores
        fold_constraint_add_frame prim_defs split: option.splits sum.splits)

lemma for_each_xform_constraint_data_stores:
  "disjunctions (outcome_model
     (for_each (xform_constraint_data mode obj disjunct nc vsm zsm) ks m)) = disjunctions m"
  "blocks (outcome_model
     (for_each (xform_constraint_data mode obj disjunct nc vsm zsm) ks m)) = blocks m"
  "block_datas (outcome_model
     (for_each (xform_constraint_data mode obj disjunct nc vsm zsm) ks m)) = block_datas m"
  "infodicts (outcome_model
     (for_each (xform_constraint_data mode obj disjunct nc vsm zsm) ks m)) = infodicts m"
  "next_ref (outcome_model
     (for_each (xform_constraint_data mode obj disjunct nc vsm zsm) ks m)) = next_ref m"
  by (rule for_each_rel [where R = "\<lambda>a b. disjunctions b = disjunctions a"],
      simp_all add: xform_constraint_data_stores,
      rule for_each_rel [where R = "\<lambda>a b. blocks b = blocks a"],
      simp_all add: xform_constraint_data_stores,
      rule for_each_rel [where R = "\<lambda>a b. block_datas b = block_datas a"],
      simp_all add: xform_constraint_data_stores,
      rule for_each_rel [where R = "\<lambda>a b. infodicts b = infodicts a"],
      simp_all add: xform_constraint_data_stores,
      rule for_each_rel [where R = "\<lambda>a b. next_ref b = next_ref a"],
      simp_all add: xform_constraint_data_stores)

lemma xform_constraint_stores:
  "disjunctions (outcome_model
     (xform_constraint mode obj disjunct relaxationBlock infodict vsm zsm m)) = disjunctions m"
  "blocks (outcome_model
     (xform_constraint mode obj disjunct relaxationBlock infodict vsm zsm m)) = blocks m"
  by (auto simp: xform_constraint_def Let_def for_each_xform_constraint_data_stores prim_defs
        split: option.splits info_attr.splits)

lemma prim_disjunctions:
  "disjunctions (set_constraint r k m) = disjunctions m"
  "disjunctions (set_block_data r b m) = disjunctions m"
  "disjunctions (set_infodict r d m) = disjunctions m"
  "disjunctions (new_constraint ix m) = disjunctions m"
  "disjunctions (add_component r c m) = disjunctions m"
  "disjunctions (constraint_add r i e m) = disjunctions m"
  "disjunctions (cons_data_deactivate r i m) = disjunctions m"
  "disjunctions (new_var m) = disjunctions m"
  "disjunctions (new_dict d m) = disjunctions m"
  "disjunctions (var_fix v x m) = disjunctions m"
  "disjunctions (block_data_deactivate r m) = disjunctions m"
  "disjunctions (new_relaxation_block r m) = disjunctions m"
  "disjunctions (disjContainers_add r cn m) = disjunctions m"
  by (simp_all add: prim_defs new_relaxation_block_def disjContainers_add_def Let_def)

lemma prim_blocks:
  "blocks (set_constraint r k m) = blocks m"
  "blocks (set_block_data r b m) = blocks m"
  "blocks (set_infodict r d m) = blocks m"
  "blocks (new_constraint ix m) = blocks m"
  "blocks (add_component r c m) = blocks m"
  "blocks (constraint_add r i e m) = blocks m"
  "blocks (cons_data_deactivate r i m) = blocks m"
  "blocks (new_var m) = blocks m"
  "blocks (new_dict d m) = blocks m"
  "blocks (var_fix v x m) = blocks m"
  "blocks (block_data_deactivate r m) = blocks m"
  "blocks (disjContainers_add r cn m) = blocks m"
  by (simp_all add: prim_defs disjContainers_add_def Let_def)

lemma disaggregate_var_stores:
  "disjunctions (outcome_model
     (disaggregate_var obj relaxationBlock relaxationBlockInfo infodict var m)) = disjunctions m"
  "blocks (outcome_model
     (disaggregate_var obj relaxationBlock relaxationBlockInfo infodict var m)) = blocks m"
  by (simp_all add: disaggregate_var_def Let_def prim_disjunctions prim_blocks
        split: option.splits)

lemma fold_block_data_deactivate_stores:
  "disjunctions (fold (\<lambda>(i, d). block_data_deactivate d) xs m) = disjunctions m"
  "blocks (fold (\<lambda>(i, d). block_data_deactivate d) xs m) = blocks m"
  by (induction xs arbitrary: m) (auto simp: prim_defs)

lemma warn_for_active_disjunction_le:
  "disjunctions_le m (outcome_model (warn_for_active_disjunction disjunction disjunct m))"
  by (auto simp: warn_for_active_disjunction_def Let_def disjunctions_le_refl
        disjunctions_le_deactivate)

lemma warn_for_active_disjunction_blocks:
  "blocks (outcome_model (warn_for_active_disjunction disjunction disjunct m)) = blocks m"
  by (auto simp: warn_for_active_disjunction_def Let_def disjunction_deactivate_def)

lemma warn_for_active_disjunct_le:
  "disjunctions (outcome_model (warn_for_active_disjunct innerdisjunct outerdisjunct m)) =
     disjunctions m"
  "blocks_le m (outcome_model (warn_for_active_disjunct innerdisjunct outerdisjunct m))"
  by (auto simp: warn_for_active_disjunct_def Let_def blocks_le_def block_deactivate_def
        fold_block_data_deactivate_stores)

lemma transform_component_le:
  "disjunctions_le m (outcome_model (transform_component mode disjunct relaxedBlock infodict
     vsm zsm obj m))"
  "blocks_le m (outcome_model (transform_component mode disjunct relaxedBlock infodict
     vsm zsm obj m))"
  by (auto simp: transform_component_def transform_block_on_disjunct_def disjunctions_le_refl
        blocks_le_refl xform_constraint_stores warn_for_active_disjunction_le
        warn_for_active_disjunction_blocks warn_for_active_disjunct_le disjunctions_le_eq blocks_le_eq
        split: option.splits handler.splits)

lemma transform_block_components_le:
  "disjunctions_le m (outcome_model (transform_block_components mode block disjunct
     relaxedBlock infodict vsm zsm m))"
  "blocks_le m (outcome_model (transform_block_components mode block disjunct
     relaxedBlock infodict vsm zsm m))"
  unfolding transform_block_components_def
  by (rule for_each_rel [where R = disjunctions_le],
      simp_all add: disjunctions_le_refl transform_component_le,
      erule (1) disjunctions_le_trans,
      rule for_each_rel [where R = blocks_le],
      simp_all add: blocks_le_refl transform_component_le,
      erule (1) blocks_le_trans)

lemma for_each_disaggregate_var_stores:
  "disjunctions (outcome_model
     (for_each (disaggregate_var obj relaxationBlock relaxationBlockInfo infodict) vs m)) =
   disjunctions m"
  "blocks (outcome_model
     (for_each (disaggregate_var obj relaxationBlock relaxationBlockInfo infodict) vs m)) =
   blocks m"
  by (rule for_each_rel [where R = "\<lambda>a b. disjunctions b = disjunctions a"],
      simp_all add: disaggregate_var_stores,
      rule for_each_rel [where R = "\<lambda>a b. blocks b = blocks a"],
      simp_all add: disaggregate_var_stores)


lemma relax_disjunct_le:
  "disjunctions_le m (outcome_model (relax_disjunct mode obj transBlock varSet m))"
  unfolding relax_disjunct_def Let_def
proof (rule and_then_rel [where R = disjunctions_le], erule (1) disjunctions_le_trans,
    goal_cases)
  case 1
  show ?case
    by (rule disjunctions_le_eq)
       (simp add: for_each_disaggregate_var_stores prim_disjunctions split: info_attr.splits)
next
  case (2 a m8)
  show ?case
  proof (cases "i_disaggregatedVars (infodicts m8
                  (case b_info (block_datas m obj) of IsDict r \<Rightarrow> r | _ \<Rightarrow> next_ref m))")
    case None
    then show ?thesis by (simp add: disjunctions_le_refl)
  next
    case (Some dvs)
    show ?thesis
      unfolding Some option.case
      by (rule and_then_rel [where R = disjunctions_le], erule (1) disjunctions_le_trans,
          rule transform_block_components_le, rule disjunctions_le_eq,
          simp add: prim_disjunctions)
  qed
qed

lemma transform_disjunct_le:
  "disjunctions_le m (outcome_model (transform_disjunct mode obj transBlock varSet m))"
  by (simp add: transform_disjunct_def Let_def relax_disjunct_le disjunctions_le_refl
        disjunctions_le_eq prim_disjunctions split: info_attr.splits)

lemma getDisjunctionConstraints_stores:
  "disjunctions (outcome_model (getDisjunctionConstraints disjunction m)) = disjunctions m"
  by (simp add: getDisjunctionConstraints_def Let_def prim_disjunctions
        split: info_attr.splits option.splits)

lemma add_disaggregation_constraint_stores:
  "disjunctions (outcome_model
     (add_disaggregation_constraint pc ds index dC iv m)) = disjunctions m"
  "block_datas (outcome_model
     (add_disaggregation_constraint pc ds index dC iv m)) = block_datas m"
  by (simp_all add: add_disaggregation_constraint_def Let_def prim_disjunctions
        constraint_add_frame split: sum.splits)

lemma for_each_add_disaggregation_constraint_stores:
  "disjunctions (outcome_model
     (for_each (add_disaggregation_constraint pc ds index dC) ivs m)) = disjunctions m"
  "block_datas (outcome_model
     (for_each (add_disaggregation_constraint pc ds index dC) ivs m)) = block_datas m"
  by (rule for_each_rel [where R = "\<lambda>a b. disjunctions b = disjunctions a"],
      simp_all add: add_disaggregation_constraint_stores,
      rule for_each_rel [where R = "\<lambda>a b. block_datas b = block_datas a"],
      simp_all add: add_disaggregation_constraint_stores)

end
